theory Spec2Isabelle
  imports Complex_Main "HOL-Library.Char_ord" "HOL-Library.List_Lexorder"
begin

section \<open>Python values and built-ins used by \<open>rainman/helpers/decorators.py\<close>\<close>

text \<open>
  The module is Python 2 (\<open>basestring\<close>). Strings are byte strings; the arguments that
  \<open>crossdomain\<close> inspects dynamically (\<open>origin\<close>, \<open>methods\<close>, \<open>headers\<close>) are values of
  \<open>pyval\<close>: \<open>None\<close>, a string, a boolean, an integer, or a list of values (the iterable).
\<close>

datatype pyval = PNone | PStr string | PBool bool | PInt int | PList "pyval list"

datatype py_error = TypeError | AttributeError | KeyError | Raised string

text \<open>\<open>isinstance(v, basestring)\<close>.\<close>

fun is_basestring :: "pyval \<Rightarrow> bool" where
  "is_basestring (PStr s) = True"
| "is_basestring v = False"

text \<open>
  \<open>iter(v)\<close>, run to the end: a string yields its one-character strings, a list its
  elements; \<open>None\<close>, booleans and integers are not iterable.
\<close>

fun py_iter :: "pyval \<Rightarrow> py_error + pyval list" where
  "py_iter (PStr s) = Inr (map (\<lambda>c. PStr [c]) s)"
| "py_iter (PList xs) = Inr xs"
| "py_iter v = Inl TypeError"

text \<open>\<open>str.upper()\<close> in the C locale: the letters a..z are mapped, every other byte is kept.\<close>

definition upper_char :: "char \<Rightarrow> char" where
  "upper_char c =
     (case map_of (zip ''abcdefghijklmnopqrstuvwxyz'' ''ABCDEFGHIJKLMNOPQRSTUVWXYZ'') c of
        None \<Rightarrow> c | Some u \<Rightarrow> u)"

definition lower_char :: "char \<Rightarrow> char" where
  "lower_char c =
     (case map_of (zip ''ABCDEFGHIJKLMNOPQRSTUVWXYZ'' ''abcdefghijklmnopqrstuvwxyz'') c of
        None \<Rightarrow> c | Some l \<Rightarrow> l)"

definition upper :: "string \<Rightarrow> string" where
  "upper s = map upper_char s"

definition lower :: "string \<Rightarrow> string" where
  "lower s = map lower_char s"

text \<open>\<open>x.upper()\<close> on a dynamic value: only strings have the method.\<close>

fun py_upper :: "pyval \<Rightarrow> py_error + string" where
  "py_upper (PStr s) = Inr (upper s)"
| "py_upper v = Inl AttributeError"

text \<open>The item check of \<open>str.join\<close>: every item must be a string.\<close>

fun join_item :: "pyval \<Rightarrow> py_error + string" where
  "join_item (PStr s) = Inr s"
| "join_item v = Inl TypeError"

text \<open>Running a fallible step over a sequence stops at the first exception.\<close>

fun traverse :: "('a \<Rightarrow> py_error + 'b) \<Rightarrow> 'a list \<Rightarrow> py_error + 'b list" where
  "traverse g [] = Inr []"
| "traverse g (x # xs) =
     (case g x of
        Inl e \<Rightarrow> Inl e
      | Inr y \<Rightarrow> (case traverse g xs of Inl e \<Rightarrow> Inl e | Inr ys \<Rightarrow> Inr (y # ys)))"

text \<open>\<open>sep.join(items)\<close> on strings.\<close>

fun join :: "string \<Rightarrow> string list \<Rightarrow> string" where
  "join sep [] = []"
| "join sep [x] = x"
| "join sep (x # y # ys) = x @ sep @ join sep (y # ys)"

text \<open>\<open>sep.join(v)\<close> on a dynamic value: \<open>TypeError\<close> unless \<open>v\<close> is an iterable of strings.\<close>

definition py_join :: "string \<Rightarrow> pyval \<Rightarrow> py_error + string" where
  "py_join sep v =
     (case py_iter v of
        Inl e \<Rightarrow> Inl e
      | Inr xs \<Rightarrow> (case traverse join_item xs of Inl e \<Rightarrow> Inl e | Inr ss \<Rightarrow> Inr (join sep ss)))"

text \<open>\<open>x.upper() for x in v\<close>, consumed by \<open>sorted\<close> or \<open>join\<close>.\<close>

definition upper_all :: "pyval \<Rightarrow> py_error + string list" where
  "upper_all v = (case py_iter v of Inl e \<Rightarrow> Inl e | Inr xs \<Rightarrow> traverse py_upper xs)"

subsection \<open>Numbers and their \<open>str\<close>\<close>

text \<open>The decimal digits of a non-negative integer.\<close>

function str_digits :: "int \<Rightarrow> string" where
  "str_digits i =
     (if i < 10 then [''0123456789'' ! nat i]
      else str_digits (i div 10) @ [''0123456789'' ! nat (i mod 10)])"
  by pat_completeness auto
termination
  by (relation "measure nat") auto

declare str_digits.simps [simp del]

text \<open>\<open>str\<close> of an integer.\<close>

definition str_int :: "int \<Rightarrow> string" where
  "str_int i = (if i < 0 then ''-'' @ str_digits (- i) else str_digits i)"

text \<open>
  \<open>datetime.timedelta\<close>, by its three stored fields. \<open>total_seconds()\<close> is
  \<open>((days * 86400 + seconds) * 10**6 + microseconds) / 10**6\<close> in true division, a float.
  The float is represented by the exact quotient; binary rounding is not modelled (the
  quotient is exact in a double for whole seconds below \<open>2^53\<close>).
\<close>

record timedelta =
  days :: int
  seconds :: int
  microseconds :: int

definition total_seconds :: "timedelta \<Rightarrow> rat" where
  "total_seconds td =
     of_int ((days td * 86400 + seconds td) * 10 ^ 6 + microseconds td) / 10 ^ 6"

datatype number = PyInt int | PyFloat rat

text \<open>
  The fraction digits of a float that is a multiple of \<open>10^-6\<close>: six digits, trailing
  zeros dropped, at least one digit kept.
\<close>

fun strip_zeros :: "string \<Rightarrow> string" where
  "strip_zeros [] = []"
| "strip_zeros (c # cs) =
     (case strip_zeros cs of
        [] \<Rightarrow> (if c = CHR ''0'' then [] else [c])
      | r \<Rightarrow> c # r)"

definition fraction :: "int \<Rightarrow> string" where
  "fraction k =
     (let ds = str_digits k; padded = replicate (6 - length ds) CHR ''0'' @ ds
      in case strip_zeros padded of [] \<Rightarrow> ''0'' | r \<Rightarrow> r)"

text \<open>
  \<open>str\<close> of a float, for the floats that \<open>total_seconds()\<close> produces: sign, integer
  part, point, fraction. This is CPython's rendering when the value needs no exponent and
  at most twelve significant digits (a whole number of seconds below \<open>10^12\<close> always
  does, and renders with the suffix \<open>.0\<close>); the rounded and exponent forms that CPython
  uses outside that range are not modelled.
\<close>

definition str_float :: "rat \<Rightarrow> string" where
  "str_float x =
     (let m = \<lfloor>\<bar>x\<bar> * 1000000\<rfloor>
      in (if x < 0 then ''-'' else []) @ str_digits (m div 1000000) @ ''.'' @
         fraction (m mod 1000000))"

fun py_str :: "number \<Rightarrow> string" where
  "py_str (PyInt i) = str_int i"
| "py_str (PyFloat x) = str_float x"

section \<open>The framework's objects\<close>

text \<open>
  Modelled from the spec: the response object with a mutable header mapping, the request
  method and the function building the default OPTIONS response, which the web framework
  supplies (spec section 6); the framework is not part of the repository. A header
  mapping is keyed by the header name without regard to letter case, as HTTP header names
  are; reading a missing name raises \<open>KeyError\<close>.
\<close>

type_synonym header_map = "string \<rightharpoonup> string"

definition getitem :: "header_map \<Rightarrow> string \<Rightarrow> py_error + string" where
  "getitem h k = (case h (lower k) of None \<Rightarrow> Inl KeyError | Some v \<Rightarrow> Inr v)"

definition setitem :: "header_map \<Rightarrow> string \<Rightarrow> string \<Rightarrow> header_map" where
  "setitem h k v = h(lower k \<mapsto> v)"

text \<open>What a reader of the response finds under a header name.\<close>

definition header :: "header_map \<Rightarrow> string \<Rightarrow> string option" where
  "header h k = h (lower k)"

record response =
  resp_status :: int
  resp_data :: string
  resp_headers :: header_map

text \<open>
  The request context of one invocation: \<open>request.method\<close>, what
  \<open>current_app.make_default_options_response()\<close> builds for the current route (a fresh
  object at every call), and \<open>make_response\<close>, which coerces a handler's return value
  into a response or raises.
\<close>

record 'rv flask =
  request_method :: string
  make_default_options_response :: response
  make_response :: "'rv \<Rightarrow> py_error + response"

section \<open>\<open>crossdomain\<close>: the policy fixed at decoration time\<close>

text \<open>The variables that the closures \<open>get_methods\<close> and \<open>wrapped_function\<close> read.\<close>

record policy =
  origin :: string
  methods :: "string option"
  headers :: "string option"
  max_age :: number
  attach_to_all :: bool
  automatic_options :: bool

datatype max_age_arg = Seconds int | Duration timedelta

text \<open>
  \<open>if methods is not None: methods = ', '.join(sorted(x.upper() for x in methods))\<close>
\<close>

definition norm_methods :: "pyval \<Rightarrow> py_error + string option" where
  "norm_methods m =
     (if m \<noteq> PNone
      then (case upper_all m of Inl e \<Rightarrow> Inl e | Inr xs \<Rightarrow> Inr (Some (join '', '' (sort xs))))
      else Inr None)"

text \<open>
  \<open>if headers is not None and not isinstance(headers, basestring):
      headers = ', '.join(x.upper() for x in headers)\<close>
\<close>

definition norm_headers :: "pyval \<Rightarrow> py_error + string option" where
  "norm_headers h =
     (if h \<noteq> PNone \<and> \<not> is_basestring h
      then (case upper_all h of Inl e \<Rightarrow> Inl e | Inr xs \<Rightarrow> Inr (Some (join '', '' xs)))
      else (case h of PStr s \<Rightarrow> Inr (Some s) | _ \<Rightarrow> Inr None))"

text \<open>\<open>if not isinstance(origin, basestring): origin = ', '.join(origin)\<close>\<close>

definition norm_origin :: "pyval \<Rightarrow> py_error + string" where
  "norm_origin v = (case v of PStr s \<Rightarrow> Inr s | _ \<Rightarrow> py_join '', '' v)"

text \<open>\<open>if isinstance(max_age, timedelta): max_age = max_age.total_seconds()\<close>\<close>

fun norm_max_age :: "max_age_arg \<Rightarrow> number" where
  "norm_max_age (Duration td) = PyFloat (total_seconds td)"
| "norm_max_age (Seconds i) = PyInt i"

text \<open>
  The body of \<open>crossdomain\<close> before the closures are built: the four normalisations in
  the order of the source, the first exception ending the call.
\<close>

definition crossdomain ::
  "pyval \<Rightarrow> pyval \<Rightarrow> pyval \<Rightarrow> max_age_arg \<Rightarrow> bool \<Rightarrow> bool \<Rightarrow> py_error + policy" where
  "crossdomain origin0 methods0 headers0 max_age0 attach_to_all0 automatic_options0 =
     (case norm_methods methods0 of
        Inl e \<Rightarrow> Inl e
      | Inr m \<Rightarrow>
          (case norm_headers headers0 of
             Inl e \<Rightarrow> Inl e
           | Inr h \<Rightarrow>
               (case norm_origin origin0 of
                  Inl e \<Rightarrow> Inl e
                | Inr og \<Rightarrow>
                    Inr \<lparr>origin = og, methods = m, headers = h,
                         max_age = norm_max_age max_age0,
                         attach_to_all = attach_to_all0,
                         automatic_options = automatic_options0\<rparr>)))"

section \<open>The wrapper\<close>

text \<open>
  What an invocation does besides returning: the calls to the handler and to
  \<open>make_default_options_response\<close>, in order.
\<close>

datatype event = Default_options_built | Handler_invoked

record outcome =
  events :: "event list"
  result :: "py_error + response"

definition get_methods :: "policy \<Rightarrow> 'rv flask \<Rightarrow> event list \<times> (py_error + string)" where
  "get_methods p app =
     (case methods p of
        Some m \<Rightarrow> ([], Inr m)
      | None \<Rightarrow>
          (let options_resp = make_default_options_response app
           in ([Default_options_built], getitem (resp_headers options_resp) ''allow'')))"

text \<open>
  Lines 48 to 51 of the source, the response the wrapper starts from: the framework's
  default OPTIONS response, or the handler's return value coerced by \<open>make_response\<close>.
\<close>

definition initial_response ::
  "policy \<Rightarrow> ('a \<Rightarrow> py_error + 'rv) \<Rightarrow> 'rv flask \<Rightarrow> 'a \<Rightarrow> event list \<times> (py_error + response)" where
  "initial_response p f app args =
     (if automatic_options p \<and> request_method app = ''OPTIONS''
      then ([Default_options_built], Inr (make_default_options_response app))
      else ([Handler_invoked],
            (case f args of Inl e \<Rightarrow> Inl e | Inr rv \<Rightarrow> make_response app rv)))"

definition wrapped_function ::
  "policy \<Rightarrow> ('a \<Rightarrow> py_error + 'rv) \<Rightarrow> 'rv flask \<Rightarrow> 'a \<Rightarrow> outcome" where
  "wrapped_function p f app args =
     (let (ev1, r1) = initial_response p f app args
      in case r1 of
           Inl e \<Rightarrow> \<lparr>events = ev1, result = Inl e\<rparr>
         | Inr resp \<Rightarrow>
             if \<not> attach_to_all p \<and> request_method app \<noteq> ''OPTIONS''
             then \<lparr>events = ev1, result = Inr resp\<rparr>
             else
               (let h1 = setitem (resp_headers resp) ''Access-Control-Allow-Origin'' (origin p);
                    (ev2, r2) = get_methods p app
                in case r2 of
                     Inl e \<Rightarrow> \<lparr>events = ev1 @ ev2, result = Inl e\<rparr>
                   | Inr m \<Rightarrow>
                       (let h2 = setitem h1 ''Access-Control-Allow-Methods'' m;
                            h3 = setitem h2 ''Access-Control-Max-Age'' (py_str (max_age p));
                            h4 = (case headers p of
                                    None \<Rightarrow> h3
                                  | Some hs \<Rightarrow> setitem h3 ''Access-Control-Allow-Headers'' hs)
                        in \<lparr>events = ev1 @ ev2, result = Inr (resp\<lparr>resp_headers := h4\<rparr>)\<rparr>)))"

text \<open>The four header names the wrapper writes, matched as the header mapping matches names.\<close>

definition cors_header_names :: "string list" where
  "cors_header_names =
     [''Access-Control-Allow-Origin'', ''Access-Control-Allow-Methods'',
      ''Access-Control-Max-Age'', ''Access-Control-Allow-Headers'']"

definition is_cors_header :: "string \<Rightarrow> bool" where
  "is_cors_header k = (lower k \<in> set (map lower cors_header_names))"

text \<open>
  A Python function object: its name, its attribute dictionary and what calling it does.
  \<open>update_wrapper\<close> copies the name and merges the wrapped function's attributes into
  the wrapper's.
\<close>

record 'c pyfunction =
  func_name :: string
  func_dict :: "string \<rightharpoonup> pyval"
  func_call :: 'c

definition update_wrapper :: "'c pyfunction \<Rightarrow> 'd pyfunction \<Rightarrow> 'c pyfunction" where
  "update_wrapper wrapper wrapped =
     wrapper\<lparr>func_name := func_name wrapped, func_dict := func_dict wrapper ++ func_dict wrapped\<rparr>"

text \<open>
  \<open>decorator(f)\<close>: the assignment \<open>f.provide_automatic_options = False\<close> changes \<open>f\<close>
  itself, so the handler after the call is returned beside the wrapper.
\<close>

definition decorator ::
  "policy \<Rightarrow> ('a \<Rightarrow> py_error + 'rv) pyfunction \<Rightarrow>
     ('a \<Rightarrow> py_error + 'rv) pyfunction \<times> ('rv flask \<Rightarrow> 'a \<Rightarrow> outcome) pyfunction" where
  "decorator p f =
     (let f' = f\<lparr>func_dict := (func_dict f)(''provide_automatic_options'' \<mapsto> PBool False)\<rparr>
      in (f',
          update_wrapper
            \<lparr>func_name = ''wrapped_function'', func_dict = Map.empty,
             func_call = wrapped_function p (func_call f)\<rparr> f'))"

section \<open>A concrete application\<close>

text \<open>
  A route answering GET with the body \<open>hello\<close>, whose default OPTIONS response lists
  the route's methods; the handler returns a response object, which \<open>make_response\<close>
  passes through.
\<close>

definition default_options :: response where
  "default_options =
     \<lparr>resp_status = 200, resp_data = [], resp_headers = [''allow'' \<mapsto> ''HEAD, GET, OPTIONS'']\<rparr>"

definition request_with :: "string \<Rightarrow> response flask" where
  "request_with m =
     \<lparr>request_method = m, make_default_options_response = default_options, make_response = Inr\<rparr>"

definition hello :: "unit \<Rightarrow> py_error + response" where
  "hello u = Inr \<lparr>resp_status = 200, resp_data = ''hello'', resp_headers = Map.empty\<rparr>"

text \<open>The policy of \<open>crossdomain(origin='*')\<close>, every other argument at its default.\<close>

definition star_policy :: policy where
  "star_policy =
     \<lparr>origin = ''*'', methods = None, headers = None, max_age = PyInt 21600,
      attach_to_all = True, automatic_options = True\<rparr>"

text \<open>The policy of \<open>crossdomain(origin='*', attach_to_all=False)\<close>.\<close>

definition options_only_policy :: policy where
  "options_only_policy = star_policy\<lparr>attach_to_all := False\<rparr>"

text \<open>
  The same handler registered on a second route that also accepts POST, so that the
  framework's default OPTIONS response differs.
\<close>

definition post_route_options :: response where
  "post_route_options =
     \<lparr>resp_status = 200, resp_data = [],
      resp_headers = [''allow'' \<mapsto> ''HEAD, GET, POST, OPTIONS'']\<rparr>"

definition post_route_request :: "string \<Rightarrow> response flask" where
  "post_route_request m =
     \<lparr>request_method = m, make_default_options_response = post_route_options,
      make_response = Inr\<rparr>"

definition hello_view :: "(unit \<Rightarrow> py_error + response) pyfunction" where
  "hello_view = \<lparr>func_name = ''hello'', func_dict = Map.empty, func_call = hello\<rparr>"

text \<open>A handler whose own response already names the headers it allows.\<close>

definition hello_custom :: "unit \<Rightarrow> py_error + response" where
  "hello_custom u =
     Inr \<lparr>resp_status = 200, resp_data = ''hello'',
          resp_headers = [''access-control-allow-headers'' \<mapsto> ''X-Custom'']\<rparr>"

text \<open>Six hours as a \<open>timedelta\<close>: \<open>timedelta(hours=6)\<close> stores 21600 seconds.\<close>

definition six_hours :: timedelta where
  "six_hours = \<lparr>days = 0, seconds = 21600, microseconds = 0\<rparr>"

section \<open>Header names and the header mapping\<close>

lemma lower_ACAO: "lower ''Access-Control-Allow-Origin'' = ''access-control-allow-origin''" by code_simp
lemma lower_ACAM: "lower ''Access-Control-Allow-Methods'' = ''access-control-allow-methods''" by code_simp
lemma lower_ACMA: "lower ''Access-Control-Max-Age'' = ''access-control-max-age''" by code_simp
lemma lower_ACAH: "lower ''Access-Control-Allow-Headers'' = ''access-control-allow-headers''" by code_simp
lemma lower_allow: "lower ''allow'' = ''allow''" by code_simp
lemmas lower_keys = lower_ACAO lower_ACAM lower_ACMA lower_ACAH lower_allow

lemma header_setitem:
  "header (setitem h k v) k' = (if lower k' = lower k then Some v else header h k')"
  by (simp add: header_def setitem_def)

lemma getitem_header:
  "getitem h k = (case header h k of None \<Rightarrow> Inl KeyError | Some v \<Rightarrow> Inr v)"
  by (simp add: getitem_def header_def)

lemma get_methods_events:
  "Handler_invoked \<notin> set (fst (get_methods p app))"
  by (simp add: get_methods_def split: option.split)

lemma get_methods_result:
  "snd (get_methods p app) =
     (case methods p of
        Some m \<Rightarrow> Inr m
      | None \<Rightarrow> getitem (resp_headers (make_default_options_response app)) ''allow'')"
  by (simp add: get_methods_def split: option.split)

section \<open>The two steps of the wrapper\<close>

lemma wrapped_function_error:
  "snd (initial_response p f app args) = Inl e \<Longrightarrow>
   wrapped_function p f app args = \<lparr>events = fst (initial_response p f app args), result = Inl e\<rparr>"
  by (cases "initial_response p f app args") (simp add: wrapped_function_def)

lemma wrapped_function_unattached:
  "snd (initial_response p f app args) = Inr resp \<Longrightarrow>
   \<not> attach_to_all p \<Longrightarrow> request_method app \<noteq> ''OPTIONS'' \<Longrightarrow>
   wrapped_function p f app args = \<lparr>events = fst (initial_response p f app args), result = Inr resp\<rparr>"
  by (cases "initial_response p f app args") (simp add: wrapped_function_def)

lemma wrapped_function_attached:
  "snd (initial_response p f app args) = Inr resp \<Longrightarrow>
   attach_to_all p \<or> request_method app = ''OPTIONS'' \<Longrightarrow>
   wrapped_function p f app args =
     (case snd (get_methods p app) of
        Inl e \<Rightarrow> \<lparr>events = fst (initial_response p f app args) @ fst (get_methods p app), result = Inl e\<rparr>
      | Inr m \<Rightarrow>
          \<lparr>events = fst (initial_response p f app args) @ fst (get_methods p app),
           result = Inr (resp\<lparr>resp_headers :=
             (let h3 = setitem (setitem (setitem (resp_headers resp)
                         ''Access-Control-Allow-Origin'' (origin p))
                         ''Access-Control-Allow-Methods'' m)
                         ''Access-Control-Max-Age'' (py_str (max_age p))
              in case headers p of None \<Rightarrow> h3
                 | Some hs \<Rightarrow> setitem h3 ''Access-Control-Allow-Headers'' hs)\<rparr>)\<rparr>)"
  by (cases "initial_response p f app args"; cases "get_methods p app")
     (auto simp add: wrapped_function_def Let_def split: sum.split)

lemma initial_response_options:
  "automatic_options p \<Longrightarrow> request_method app = ''OPTIONS'' \<Longrightarrow>
   initial_response p f app args = ([Default_options_built], Inr (make_default_options_response app))"
  by (simp add: initial_response_def)

lemma initial_response_handler:
  "\<not> (automatic_options p \<and> request_method app = ''OPTIONS'') \<Longrightarrow>
   initial_response p f app args =
     ([Handler_invoked], (case f args of Inl e \<Rightarrow> Inl e | Inr rv \<Rightarrow> make_response app rv))"
  by (simp add: initial_response_def)

lemma attached_header:
  assumes "snd (initial_response p f app args) = Inr resp"
    and "attach_to_all p \<or> request_method app = ''OPTIONS''"
    and "result (wrapped_function p f app args) = Inr r"
  shows "\<exists>m. snd (get_methods p app) = Inr m \<and>
           resp_status r = resp_status resp \<and> resp_data r = resp_data resp \<and>
           header (resp_headers r) k =
             (if lower k = lower ''Access-Control-Allow-Headers'' \<and> headers p \<noteq> None then headers p
              else if lower k = lower ''Access-Control-Max-Age'' then Some (py_str (max_age p))
              else if lower k = lower ''Access-Control-Allow-Methods'' then Some m
              else if lower k = lower ''Access-Control-Allow-Origin'' then Some (origin p)
              else header (resp_headers resp) k)"
  using assms(3) unfolding wrapped_function_attached [OF assms(1,2)]
  by (cases "snd (get_methods p app)"; cases "headers p") (auto simp add: header_setitem)

lemma attached_returns:
  assumes "snd (initial_response p f app args) = Inr resp"
    and "attach_to_all p \<or> request_method app = ''OPTIONS''"
    and "snd (get_methods p app) = Inr m"
  shows "\<exists>r. result (wrapped_function p f app args) = Inr r"
  unfolding wrapped_function_attached [OF assms(1,2)] using assms(3) by simp

lemma get_methods_returns:
  "methods p \<noteq> None \<or> header (resp_headers (make_default_options_response app)) ''allow'' \<noteq> None \<Longrightarrow>
   \<exists>m. snd (get_methods p app) = Inr m"
  by (auto simp add: get_methods_result getitem_header split: option.split)

lemma events_wrapped_function:
  "set (events (wrapped_function p f app args)) \<subseteq>
     set (fst (initial_response p f app args)) \<union> set (fst (get_methods p app))"
  by (cases "initial_response p f app args"; cases "get_methods p app")
     (auto simp add: wrapped_function_def Let_def split: sum.split)

section \<open>OPTIONS requests under \<open>automatic_options\<close>\<close>

text \<open>
  Claim C1. For every request whose method is OPTIONS, when the policy has
  \<open>automatic_options=True\<close>, the wrapped handler is never invoked and the returned
  response is obtained from the framework's default OPTIONS response: the invocation
  records no call of the handler and does not depend on the handler or its arguments;
  a returned response has the status and body of the default OPTIONS response and
  differs from it at most in the four CORS headers; and a response is returned whenever
  methods were configured or the default OPTIONS response carries an \<open>allow\<close> header.
\<close>

theorem options_automatic_skips_handler:
  assumes "automatic_options p" and "request_method app = ''OPTIONS''"
  shows "Handler_invoked \<notin> set (events (wrapped_function p f app args)) \<and>
         wrapped_function p f app args = wrapped_function p g app args' \<and>
         (\<forall>r. result (wrapped_function p f app args) = Inr r \<longrightarrow>
            resp_status r = resp_status (make_default_options_response app) \<and>
            resp_data r = resp_data (make_default_options_response app) \<and>
            (\<forall>k. \<not> is_cors_header k \<longrightarrow>
               header (resp_headers r) k =
               header (resp_headers (make_default_options_response app)) k)) \<and>
         (methods p \<noteq> None \<or>
          header (resp_headers (make_default_options_response app)) ''allow'' \<noteq> None \<longrightarrow>
            (\<exists>r. result (wrapped_function p f app args) = Inr r))"
proof -
  let ?d = "make_default_options_response app"
  have init: "initial_response p f app args = ([Default_options_built], Inr ?d)"
    by (rule initial_response_options [OF assms])
  have init': "initial_response p g app args' = ([Default_options_built], Inr ?d)"
    by (rule initial_response_options [OF assms])
  have s: "snd (initial_response p f app args) = Inr ?d" by (simp add: init)
  have s': "snd (initial_response p g app args') = Inr ?d" by (simp add: init')
  have att: "attach_to_all p \<or> request_method app = ''OPTIONS''" using assms(2) by simp
  have 1: "Handler_invoked \<notin> set (events (wrapped_function p f app args))"
    using events_wrapped_function [of p f app args] get_methods_events [of p app]
    by (auto simp add: init)
  have 2: "wrapped_function p f app args = wrapped_function p g app args'"
    by (simp add: wrapped_function_def init init')
  have 3: "resp_status r = resp_status ?d \<and> resp_data r = resp_data ?d \<and>
           (\<forall>k. \<not> is_cors_header k \<longrightarrow> header (resp_headers r) k = header (resp_headers ?d) k)"
    if "result (wrapped_function p f app args) = Inr r" for r
  proof (intro conjI allI impI)
    fix k assume k: "\<not> is_cors_header k"
    from attached_header [OF s att that, of k] k
    show "header (resp_headers r) k = header (resp_headers ?d) k"
      by (auto simp add: is_cors_header_def cors_header_names_def)
  next
    from attached_header [OF s att that] show "resp_status r = resp_status ?d" by blast
  next
    from attached_header [OF s att that] show "resp_data r = resp_data ?d" by blast
  qed
  have 4: "\<exists>r. result (wrapped_function p f app args) = Inr r"
    if "methods p \<noteq> None \<or> header (resp_headers ?d) ''allow'' \<noteq> None"
    using get_methods_returns [OF that] attached_returns [OF s att] by blast
  from 1 2 3 4 show ?thesis by blast
qed

theorem options_automatic_skips_handler_witness:
  "automatic_options star_policy \<and> request_method (request_with ''OPTIONS'') = ''OPTIONS'' \<and>
   Handler_invoked \<notin> set (events (wrapped_function star_policy hello (request_with ''OPTIONS'') ())) \<and>
   (\<exists>r. result (wrapped_function star_policy hello (request_with ''OPTIONS'') ()) = Inr r \<and>
        resp_data r = resp_data default_options \<and>
        header (resp_headers r) ''Allow'' = Some ''HEAD, GET, OPTIONS'')"
proof -
  let ?app = "request_with ''OPTIONS''"
  let ?w = "wrapped_function star_policy hello ?app ()"
  have h1: "automatic_options star_policy"
    by (simp add: star_policy_def)
  have h2: "request_method ?app = ''OPTIONS''"
    by (simp add: request_with_def)
  have d: "make_default_options_response ?app = default_options"
    by (simp add: request_with_def)
  have allow: "header (resp_headers default_options) ''allow'' = Some ''HEAD, GET, OPTIONS''"
    by (simp add: default_options_def header_def lower_allow)
  have Allow: "header (resp_headers default_options) ''Allow'' = Some ''HEAD, GET, OPTIONS''"
    by code_simp
  have nc: "\<not> is_cors_header ''Allow''"
    by code_simp
  note t = options_automatic_skips_handler [OF h1 h2, of hello "()" hello "()"]
  have a: "Handler_invoked \<notin> set (events ?w)"
    by (rule t [THEN conjunct1])
  have c: "\<forall>r. result ?w = Inr r \<longrightarrow>
            resp_status r = resp_status default_options \<and>
            resp_data r = resp_data default_options \<and>
            (\<forall>k. \<not> is_cors_header k \<longrightarrow>
               header (resp_headers r) k = header (resp_headers default_options) k)"
    using t [THEN conjunct2, THEN conjunct2, THEN conjunct1] unfolding d .
  have e: "\<exists>r. result ?w = Inr r"
    using t [THEN conjunct2, THEN conjunct2, THEN conjunct2] allow unfolding d by simp
  then obtain r where r: "result ?w = Inr r" ..
  from c r have "resp_data r = resp_data default_options"
    and "header (resp_headers r) ''Allow'' = header (resp_headers default_options) ''Allow''"
    using nc by blast+
  with r Allow have "\<exists>r. result ?w = Inr r \<and> resp_data r = resp_data default_options \<and>
        header (resp_headers r) ''Allow'' = Some ''HEAD, GET, OPTIONS''"
    by simp
  with h1 h2 a show ?thesis by blast
qed

section \<open>Requests answered by the handler\<close>

lemma handler_response_returns:
  assumes "request_method app \<noteq> ''OPTIONS''"
    and "f args = Inr rv" and "make_response app rv = Inr resp"
    and "methods p \<noteq> None \<or> header (resp_headers (make_default_options_response app)) ''allow'' \<noteq> None"
  shows "\<exists>r. result (wrapped_function p f app args) = Inr r"
proof -
  have s: "snd (initial_response p f app args) = Inr resp"
    using assms(1-3) by (simp add: initial_response_def)
  show ?thesis
  proof (cases "attach_to_all p")
    case True
    then have att: "attach_to_all p \<or> request_method app = ''OPTIONS''" by simp
    from get_methods_returns [OF assms(4)] attached_returns [OF s att] show ?thesis by blast
  next
    case False
    from wrapped_function_unattached [OF s False assms(1)] show ?thesis by simp
  qed
qed



text \<open>
  Claim C3. For every non-OPTIONS request, when the policy has \<open>attach_to_all=False\<close>,
  the response produced by the wrapped handler is returned unmodified: the outcome of the
  wrapper is exactly the handler's return value coerced by \<open>make_response\<close> (or the
  exception either of them raised), after one call of the handler, so no header is added
  and none is changed.
\<close>

theorem non_options_unattached_unmodified:
  assumes "request_method app \<noteq> ''OPTIONS''" and "\<not> attach_to_all p"
  shows "wrapped_function p f app args =
           \<lparr>events = [Handler_invoked],
            result = (case f args of Inl e \<Rightarrow> Inl e | Inr rv \<Rightarrow> make_response app rv)\<rparr>"
proof -
  have init: "initial_response p f app args =
      ([Handler_invoked], (case f args of Inl e \<Rightarrow> Inl e | Inr rv \<Rightarrow> make_response app rv))"
    using assms(1) by (simp add: initial_response_def)
  show ?thesis
  proof (cases "snd (initial_response p f app args)")
    case (Inl e)
    from wrapped_function_error [OF Inl] Inl show ?thesis by (simp add: init)
  next
    case (Inr resp)
    from wrapped_function_unattached [OF Inr assms(2,1)] Inr show ?thesis by (simp add: init)
  qed
qed

theorem non_options_unattached_unmodified_witness:
  "request_method (request_with ''GET'') \<noteq> ''OPTIONS'' \<and> \<not> attach_to_all options_only_policy \<and>
   wrapped_function options_only_policy hello (request_with ''GET'') () =
     \<lparr>events = [Handler_invoked],
      result = Inr \<lparr>resp_status = 200, resp_data = ''hello'', resp_headers = Map.empty\<rparr>\<rparr>"
proof -
  have h1: "request_method (request_with ''GET'') \<noteq> ''OPTIONS''"
    by (simp add: request_with_def)
  have h2: "\<not> attach_to_all options_only_policy"
    by (simp add: options_only_policy_def)
  from non_options_unattached_unmodified [OF h1 h2, of hello "()"] h1 h2
  show ?thesis by (simp add: hello_def request_with_def)
qed

section \<open>The attached headers\<close>

text \<open>
  Claim C4. Whenever CORS headers are attached, \<open>Access-Control-Allow-Methods\<close> is set
  to the configured method list (the upper-cased, sorted, comma-joined \<open>methods\<close>
  argument) when methods were configured, and otherwise to the \<open>allow\<close> header of the
  framework's default OPTIONS response of the invocation.
\<close>

theorem allow_methods_value:
  assumes "crossdomain origin0 methods0 headers0 max_age0 attach_to_all0 automatic_options0 = Inr p"
    and "attach_to_all p \<or> request_method app = ''OPTIONS''"
    and "result (wrapped_function p f app args) = Inr r"
  shows "(if methods0 \<noteq> PNone
          then \<exists>xs. upper_all methods0 = Inr xs \<and>
                 header (resp_headers r) ''Access-Control-Allow-Methods'' = Some (join '', '' (sort xs))
          else \<exists>m. header (resp_headers (make_default_options_response app)) ''allow'' = Some m \<and>
                 header (resp_headers r) ''Access-Control-Allow-Methods'' = Some m)"
proof -
  obtain resp where resp: "snd (initial_response p f app args) = Inr resp"
  proof (cases "snd (initial_response p f app args)")
    case (Inl e)
    from wrapped_function_error [OF Inl] assms(3) show ?thesis by simp
  next
    case (Inr resp) then show ?thesis by (rule that)
  qed
  from attached_header [OF resp assms(2,3), of "''Access-Control-Allow-Methods''"]
  obtain m where m: "snd (get_methods p app) = Inr m"
    and hm: "header (resp_headers r) ''Access-Control-Allow-Methods'' = Some m"
    by (auto simp add: lower_keys split: if_splits)
  have nm: "norm_methods methods0 = Inr (methods p)"
    using assms(1) by (auto simp add: crossdomain_def split: sum.splits)
  show ?thesis
  proof (cases "methods0 = PNone")
    case True
    with nm have "methods p = None" by (simp add: norm_methods_def)
    with m have "header (resp_headers (make_default_options_response app)) ''allow'' = Some m"
      by (simp add: get_methods_result getitem_header split: option.splits)
    with hm True show ?thesis by simp
  next
    case False
    with nm obtain xs where xs: "upper_all methods0 = Inr xs"
      and mp: "methods p = Some (join '', '' (sort xs))"
      by (auto simp add: norm_methods_def split: sum.splits)
    from m mp have "m = join '', '' (sort xs)" by (simp add: get_methods_result)
    with hm xs False show ?thesis by simp
  qed
qed

theorem allow_methods_value_witness:
  "(\<exists>p r. crossdomain (PStr ''*'') (PList [PStr ''post'', PStr ''Get'']) PNone (Seconds 21600) True True = Inr p \<and>
      result (wrapped_function p hello (request_with ''GET'') ()) = Inr r \<and>
      header (resp_headers r) ''Access-Control-Allow-Methods'' = Some ''GET, POST'') \<and>
   (\<exists>p r. crossdomain (PStr ''*'') PNone PNone (Seconds 21600) True True = Inr p \<and>
      result (wrapped_function p hello (request_with ''GET'') ()) = Inr r \<and>
      header (resp_headers r) ''Access-Control-Allow-Methods'' = Some ''HEAD, GET, OPTIONS'')"
proof -
  let ?app = "request_with ''GET''"
  let ?ms = "PList [PStr ''post'', PStr ''Get'']"
  have ne: "request_method ?app \<noteq> ''OPTIONS''"
    by (simp add: request_with_def)
  have allow: "header (resp_headers (make_default_options_response ?app)) ''allow'' = Some ''HEAD, GET, OPTIONS''"
    by (simp add: request_with_def default_options_def header_def lower_allow)
  have f: "hello () = Inr \<lparr>resp_status = 200, resp_data = ''hello'', resp_headers = Map.empty\<rparr>"
    by (simp add: hello_def)
  have mr: "make_response ?app \<lparr>resp_status = 200, resp_data = ''hello'', resp_headers = Map.empty\<rparr>
              = Inr \<lparr>resp_status = 200, resp_data = ''hello'', resp_headers = Map.empty\<rparr>"
    by (simp add: request_with_def)
  have ret: "\<exists>r. result (wrapped_function p hello ?app ()) = Inr r" for p
    using handler_response_returns [where f = hello and args = "()" and p = p, OF ne f mr] allow
    by simp
  have c1: "crossdomain (PStr ''*'') ?ms PNone (Seconds 21600) True True =
      Inr \<lparr>origin = ''*'', methods = Some ''GET, POST'', headers = None, max_age = PyInt 21600,
           attach_to_all = True, automatic_options = True\<rparr>" (is "_ = Inr ?p1")
    by code_simp
  have c2: "crossdomain (PStr ''*'') PNone PNone (Seconds 21600) True True = Inr star_policy"
    by code_simp
  have up: "upper_all ?ms = Inr [''POST'', ''GET'']"
    by code_simp
  have srt: "join '', '' (sort [''POST'', ''GET'']) = ''GET, POST''"
    by code_simp
  from ret obtain r1 where r1: "result (wrapped_function ?p1 hello ?app ()) = Inr r1" by blast
  from ret obtain r2 where r2: "result (wrapped_function star_policy hello ?app ()) = Inr r2" by blast
  have a1: "attach_to_all ?p1 \<or> request_method ?app = ''OPTIONS''" by simp
  have a2: "attach_to_all star_policy \<or> request_method ?app = ''OPTIONS''"
    by (simp add: star_policy_def)
  from allow_methods_value [OF c1 a1 r1] up srt
  have m1: "header (resp_headers r1) ''Access-Control-Allow-Methods'' = Some ''GET, POST''"
    by simp
  from allow_methods_value [OF c2 a2 r2] allow
  have m2: "header (resp_headers r2) ''Access-Control-Allow-Methods'' = Some ''HEAD, GET, OPTIONS''"
    by simp
  from c1 r1 m1 c2 r2 m2 show ?thesis by blast
qed

end
